theory Spec2Isabelle
  imports Complex_Main
begin

section \<open>JavaScript values used by the purchase hook\<close>

text \<open>
  The hook \<^verbatim>\<open>useSmartNodesPartnerTransfer\<close> computes with JavaScript numbers, which are
  IEEE-754 binary64 values. A number is modelled as one of the special values or as the exact
  rational it denotes; every arithmetic operation computes the exact rational result and rounds
  it to the nearest binary64 value, ties to even, as the language does.
\<close>

datatype jsnum = NaN | PosInf | NegInf | NegZero | Fin rat

text \<open>\<open>ilog2 n\<close> is the position of the leading bit of \<open>n\<close>, for \<open>n \<ge> 1\<close>.\<close>

function ilog2 :: "int \<Rightarrow> int" where
  "ilog2 n = (if n < 2 then 0 else 1 + ilog2 (n div 2))"
  by pat_completeness auto
termination
  by (relation "measure nat") auto

declare ilog2.simps [simp del]

definition pow2 :: "int \<Rightarrow> rat" where
  "pow2 e = (if 0 \<le> e then 2 ^ nat e else 1 / 2 ^ nat (- e))"

text \<open>The binary exponent of a positive rational: \<open>2 ^ e \<le> m < 2 ^ (e + 1)\<close>.\<close>

definition binexp :: "rat \<Rightarrow> int" where
  "binexp m =
     (if 1 \<le> m then ilog2 \<lfloor>m\<rfloor>
      else (let j = ilog2 \<lfloor>1 / m\<rfloor>
            in if m = pow2 (- j) then - j else - j - 1))"

definition round_half_even :: "rat \<Rightarrow> int" where
  "round_half_even q =
     (let f = \<lfloor>q\<rfloor>; d = q - of_int f
      in if d < 1 / 2 then f else if 1 / 2 < d then f + 1
         else if even f then f else f + 1)"

text \<open>
  Rounding of an exact magnitude \<open>m \<ge> 0\<close> to binary64: 53 significant bits, exponents from
  \<open>-1022\<close> (below that the spacing stays \<open>2 ^ -1074\<close>, the subnormal numbers) to \<open>1023\<close>
  (above that the result overflows, \<open>None\<close>).
\<close>

definition round_mag :: "rat \<Rightarrow> rat option" where
  "round_mag m =
     (if m = 0 then Some 0
      else (let e = max (binexp m) (- 1022);
                n = round_half_even (m / pow2 (e - 52));
                e' = (if n = 2 ^ 53 then e + 1 else e)
            in if 1023 < e' then None else Some (of_int n * pow2 (e - 52))))"

definition from_exact :: "bool \<Rightarrow> rat \<Rightarrow> jsnum" where
  "from_exact neg m =
     (case round_mag m of
        None \<Rightarrow> (if neg then NegInf else PosInf)
      | Some r \<Rightarrow> (if r = 0 then (if neg then NegZero else Fin 0)
                   else Fin (if neg then - r else r)))"

fun is_neg :: "jsnum \<Rightarrow> bool" where
  "is_neg NegInf = True"
| "is_neg NegZero = True"
| "is_neg (Fin q) = (q < 0)"
| "is_neg _ = False"

fun is_zero :: "jsnum \<Rightarrow> bool" where
  "is_zero NegZero = True"
| "is_zero (Fin q) = (q = 0)"
| "is_zero _ = False"

fun is_inf :: "jsnum \<Rightarrow> bool" where
  "is_inf PosInf = True"
| "is_inf NegInf = True"
| "is_inf _ = False"

text \<open>The rational a finite number denotes (both zeros denote 0).\<close>

fun rat_of :: "jsnum \<Rightarrow> rat" where
  "rat_of (Fin q) = q"
| "rat_of _ = 0"

definition signed_inf :: "bool \<Rightarrow> jsnum" where
  "signed_inf neg = (if neg then NegInf else PosInf)"

definition signed_zero :: "bool \<Rightarrow> jsnum" where
  "signed_zero neg = (if neg then NegZero else Fin 0)"

text \<open>The operator \<^verbatim>\<open>*\<close> on numbers.\<close>

definition js_mul :: "jsnum \<Rightarrow> jsnum \<Rightarrow> jsnum" where
  "js_mul x y =
     (let neg = (is_neg x \<noteq> is_neg y)
      in if x = NaN \<or> y = NaN then NaN
         else if is_inf x \<or> is_inf y then
           (if is_zero x \<or> is_zero y then NaN else signed_inf neg)
         else from_exact neg (\<bar>rat_of x\<bar> * \<bar>rat_of y\<bar>))"

text \<open>The operator \<^verbatim>\<open>/\<close> on numbers: division by a zero gives an infinity or \<open>NaN\<close>.\<close>

definition js_div :: "jsnum \<Rightarrow> jsnum \<Rightarrow> jsnum" where
  "js_div x y =
     (let neg = (is_neg x \<noteq> is_neg y)
      in if x = NaN \<or> y = NaN then NaN
         else if is_inf x then (if is_inf y then NaN else signed_inf neg)
         else if is_inf y then signed_zero neg
         else if is_zero y then (if is_zero x then NaN else signed_inf neg)
         else from_exact neg (\<bar>rat_of x\<bar> / \<bar>rat_of y\<bar>))"

text \<open>The operator \<^verbatim>\<open>+\<close> on numbers.\<close>

definition js_add :: "jsnum \<Rightarrow> jsnum \<Rightarrow> jsnum" where
  "js_add x y =
     (if x = NaN \<or> y = NaN then NaN
      else if is_inf x then (if is_inf y \<and> x \<noteq> y then NaN else x)
      else if is_inf y then y
      else if x = NegZero \<and> y = NegZero then NegZero
      else (let s = rat_of x + rat_of y in from_exact (s < 0) \<bar>s\<bar>))"

text \<open>The comparisons \<^verbatim>\<open><\<close>, \<^verbatim>\<open>>\<close> and \<^verbatim>\<open>>=\<close>: false whenever an operand is \<open>NaN\<close>.\<close>

fun js_lt :: "jsnum \<Rightarrow> jsnum \<Rightarrow> bool" where
  "js_lt NaN _ = False"
| "js_lt _ NaN = False"
| "js_lt PosInf _ = False"
| "js_lt _ NegInf = False"
| "js_lt NegInf _ = True"
| "js_lt _ PosInf = True"
| "js_lt x y = (rat_of x < rat_of y)"

definition js_gt :: "jsnum \<Rightarrow> jsnum \<Rightarrow> bool" where
  "js_gt x y = js_lt y x"

definition js_ge :: "jsnum \<Rightarrow> jsnum \<Rightarrow> bool" where
  "js_ge x y = (x \<noteq> NaN \<and> y \<noteq> NaN \<and> \<not> js_lt x y)"

text \<open>\<^verbatim>\<open>Math.floor\<close>: the floor of a binary64 value is one, so nothing is rounded.\<close>

fun Math_floor :: "jsnum \<Rightarrow> jsnum" where
  "Math_floor (Fin q) = Fin (of_int \<lfloor>q\<rfloor>)"
| "Math_floor x = x"

datatype jserror = PlainError | RangeError | Rejection string

text \<open>
  \<^verbatim>\<open>BigInt(number)\<close>: throws a \<^verbatim>\<open>RangeError\<close> unless the number is an integer.
\<close>

fun BigInt :: "jsnum \<Rightarrow> jserror + int" where
  "BigInt (Fin q) = (if q = of_int \<lfloor>q\<rfloor> then Inr \<lfloor>q\<rfloor> else Inl RangeError)"
| "BigInt NegZero = Inr 0"
| "BigInt _ = Inl RangeError"


subsection \<open>Numbers to strings and back\<close>

text \<open>
  \<^verbatim>\<open>String(x)\<close> on a number is the language's \<^verbatim>\<open>Number::toString\<close>: the shortest
  decimal digit string \<open>s\<close> (of \<open>k\<close> digits, with decimal exponent \<open>n\<close>) that reads back as
  \<open>x\<close>, printed in positional notation when \<open>-6 < n \<le> 21\<close> and in exponent notation
  otherwise.
\<close>

function ndigits :: "int \<Rightarrow> int" where
  "ndigits n = (if n < 10 then 1 else 1 + ndigits (n div 10))"
  by pat_completeness auto
termination
  by (relation "measure nat") auto

declare ndigits.simps [simp del]

definition pow10 :: "int \<Rightarrow> rat" where
  "pow10 e = (if 0 \<le> e then 10 ^ nat e else 1 / 10 ^ nat (- e))"

text \<open>The decimal exponent of a positive rational: \<open>10 ^ (n - 1) \<le> x < 10 ^ n\<close>.\<close>

definition decexp :: "rat \<Rightarrow> int" where
  "decexp x =
     (if 1 \<le> x then ndigits \<lfloor>x\<rfloor>
      else (let m = ndigits \<lfloor>1 / x\<rfloor>
            in if x = pow10 (1 - m) then 2 - m else 1 - m))"

definition reads_back :: "rat \<Rightarrow> int \<Rightarrow> rat \<Rightarrow> bool" where
  "reads_back x s sc = (round_mag (of_int s * sc) = Some x)"

text \<open>
  The digits of length \<open>k\<close> for \<open>x\<close>, if any: of the two \<open>k\<close>-digit decimals around \<open>x\<close>, one
  that reads back as \<open>x\<close>, the closer one when both do, the even one when they are as close.
\<close>

definition digits_of_length :: "rat \<Rightarrow> int \<Rightarrow> int \<Rightarrow> int option" where
  "digits_of_length x n k =
     (let sc = pow10 (n - k); s1 = \<lfloor>x / sc\<rfloor>; s2 = s1 + 1;
          d1 = x - of_int s1 * sc; d2 = of_int s2 * sc - x
      in if reads_back x s1 sc \<and> reads_back x s2 sc then
           Some (if d1 < d2 then s1 else if d2 < d1 then s2 else if even s1 then s1 else s2)
         else if reads_back x s1 sc then Some s1
         else if reads_back x s2 sc then Some s2
         else None)"

text \<open>Seventeen digits always suffice for a binary64 value; the search starts at one digit.\<close>

function shortest_from :: "rat \<Rightarrow> int \<Rightarrow> int \<Rightarrow> int \<times> int \<times> int" where
  "shortest_from x n k =
     (if 17 < k then (n, k, \<lfloor>x / pow10 (n - k)\<rfloor>)
      else case digits_of_length x n k of
             Some s \<Rightarrow> (if s = 10 ^ nat k then (n + 1, k, 10 ^ nat (k - 1)) else (n, k, s))
           | None \<Rightarrow> shortest_from x n (k + 1))"
  by pat_completeness auto
termination
  by (relation "measure (\<lambda>(x, n, k). nat (18 - k))") auto

declare shortest_from.simps [simp del]

definition shortest_digits :: "rat \<Rightarrow> int \<times> int \<times> int" where
  "shortest_digits x = shortest_from x (decexp x) 1"

definition digit_char :: "int \<Rightarrow> char" where
  "digit_char d = ''0123456789'' ! nat d"

function show_int :: "int \<Rightarrow> string" where
  "show_int n = (if n < 10 then [digit_char n] else show_int (n div 10) @ [digit_char (n mod 10)])"
  by pat_completeness auto
termination
  by (relation "measure nat") auto

declare show_int.simps [simp del]

definition show_positive :: "rat \<Rightarrow> string" where
  "show_positive x =
     (case shortest_digits x of (n, k, s) \<Rightarrow>
        (let ds = show_int s
         in if - 5 \<le> n \<and> n \<le> 21 then
              (if k \<le> n then ds @ replicate (nat (n - k)) (CHR ''0'')
               else if 0 < n then take (nat n) ds @ ''.'' @ drop (nat n) ds
               else ''0.'' @ replicate (nat (- n)) (CHR ''0'') @ ds)
            else
              (let ex = (if 0 \<le> n - 1 then ''+'' else ''-'') @ show_int \<bar>n - 1\<bar>
               in if k = 1 then ds @ ''e'' @ ex
                  else take 1 ds @ ''.'' @ drop 1 ds @ ''e'' @ ex)))"

fun String_number :: "jsnum \<Rightarrow> string" where
  "String_number NaN = ''NaN''"
| "String_number PosInf = ''Infinity''"
| "String_number NegInf = ''-Infinity''"
| "String_number NegZero = ''0''"
| "String_number (Fin q) =
     (if q = 0 then ''0'' else if q < 0 then ''-'' @ show_positive (- q) else show_positive q)"

text \<open>
  \<^verbatim>\<open>parseInt(string)\<close> with no radix: leading white space is skipped, a sign is read, a prefix
  \<^verbatim>\<open>0x\<close> selects radix 16, and the longest prefix of digits is the value; \<open>NaN\<close> when there is
  no digit. Reading stops at the first character that is not a digit, a decimal point or an
  exponent mark included. Strings are byte strings here, so only the ASCII white space is
  skipped.
\<close>

definition is_space :: "char \<Rightarrow> bool" where
  "is_space c = (c \<in> set [CHR '' '', CHR 0x09, CHR 0x0A, CHR 0x0B, CHR 0x0C, CHR 0x0D])"

definition digit_value :: "char \<Rightarrow> int option" where
  "digit_value c =
     (let v = int (of_char c)
      in if 48 \<le> v \<and> v \<le> 57 then Some (v - 48)
         else if 97 \<le> v \<and> v \<le> 122 then Some (v - 87)
         else if 65 \<le> v \<and> v \<le> 90 then Some (v - 55)
         else None)"

fun read_digits :: "int \<Rightarrow> string \<Rightarrow> int option \<Rightarrow> int option" where
  "read_digits r [] acc = acc"
| "read_digits r (c # cs) acc =
     (case digit_value c of
        Some d \<Rightarrow> (if d < r then read_digits r cs (Some ((case acc of None \<Rightarrow> 0 | Some a \<Rightarrow> a) * r + d))
                   else acc)
      | None \<Rightarrow> acc)"

definition parseInt :: "string \<Rightarrow> jsnum" where
  "parseInt str =
     (let s0 = dropWhile is_space str;
          neg = (case s0 of c # _ \<Rightarrow> c = CHR ''-'' | [] \<Rightarrow> False);
          s1 = (case s0 of c # cs \<Rightarrow> (if c = CHR ''+'' \<or> c = CHR ''-'' then cs else s0) | [] \<Rightarrow> s0);
          hex = (take 2 s1 = ''0x'' \<or> take 2 s1 = ''0X'');
          s2 = (if hex then drop 2 s1 else s1)
      in case read_digits (if hex then 16 else 10) s2 None of
           None \<Rightarrow> NaN
         | Some v \<Rightarrow> from_exact neg (of_int v))"


section \<open>The hook's inputs, collaborators and effects\<close>

subsection \<open>The transfer schema\<close>

text \<open>
  The hook's arguments are checked at run time by \<^verbatim>\<open>transferSchema\<close>, so they are modelled as
  untyped values (\<open>JOther\<close> stands for objects, arrays and the remaining kinds).
  \<^verbatim>\<open>z.string()\<close> accepts every string, the empty one included; \<^verbatim>\<open>z.number()\<close>, as in
  version 3 of the schema library, accepts every number except \<open>NaN\<close>. The code after the check
  reads the same three values, so the model continues with the parsed record.
\<close>

datatype jsval = JUndefined | JNull | JBool bool | JNum jsnum | JStr string | JOther

record raw_props =
  raw_referralCode :: jsval
  raw_amount :: jsval
  raw_bonusPlan :: jsval

record TransferType =
  referralCode :: string
  amount :: jsnum
  bonusPlan :: jsnum

fun z_string :: "jsval \<Rightarrow> string option" where
  "z_string (JStr s) = Some s"
| "z_string _ = None"

fun z_number :: "jsval \<Rightarrow> jsnum option" where
  "z_number (JNum x) = (if x = NaN then None else Some x)"
| "z_number _ = None"

text \<open>\<^verbatim>\<open>transferSchema.safeParse\<close>: \<open>None\<close> stands for a result that carries an error.\<close>

definition transferSchema_safeParse :: "raw_props \<Rightarrow> TransferType option" where
  "transferSchema_safeParse p =
     (case (z_string (raw_referralCode p), z_number (raw_amount p), z_number (raw_bonusPlan p)) of
        (Some r, Some a, Some b) \<Rightarrow> Some \<lparr>referralCode = r, amount = a, bonusPlan = b\<rparr>
      | _ \<Rightarrow> None)"

subsection \<open>What the hook reads from its surroundings\<close>

record validator_data =
  availableSmartNodes :: jsnum

record partner_data =
  currentPrice :: jsnum
  paymentsWallet :: string

record account_user =
  address :: string

record stored_identity =
  email :: string

text \<open>
  The values the closure of \<^verbatim>\<open>transfer\<close> reads synchronously: the partner context, the
  connected user, the session store and the query string of the page. \<open>None\<close> stands for
  \<^verbatim>\<open>null\<close> or \<^verbatim>\<open>undefined\<close>. \<^verbatim>\<open>getPartnerId()\<close> is called twice in an attempt and is
  taken to return the same value both times. The imported helpers
  \<^verbatim>\<open>isInsufficientFundsError\<close>, \<^verbatim>\<open>isRejectedError\<close> and \<^verbatim>\<open>encryptData\<close> are parameters.
\<close>

record hooks =
  getPartnerId :: "string option"
  data :: "partner_data option"
  user :: "account_user option"
  store_get :: "stored_identity option"
  searchParams_get :: "string \<Rightarrow> string option"
  isInsufficientFundsError :: "jserror \<Rightarrow> bool"
  isRejectedError :: "jserror \<Rightarrow> bool"
  encryptData :: "string \<Rightarrow> string \<Rightarrow> string"

text \<open>A string or \<^verbatim>\<open>null\<close> in a condition: only a non-empty string is truthy.\<close>

fun truthy :: "string option \<Rightarrow> bool" where
  "truthy None = False"
| "truthy (Some s) = (s \<noteq> [])"

subsection \<open>Requests to the collaborators and effects on the page\<close>

record user_operation =
  uo_target :: string
  uo_data :: string
  uo_value :: int

record purchase =
  partnerId :: string
  transactionHash :: string
  totalInEth :: jsnum
  totalInUsd :: jsnum
  quantity :: jsnum
  purchase_bonusPlan :: jsnum
  wallet :: string
  purchase_email :: string
  userReferralCode :: string
  transactionReferralCode :: string

text \<open>An awaited promise settles: it resolves with a value or rejects with an error.\<close>

datatype 'a settled = Resolved 'a | Rejected jserror

record collaborators =
  getPartnerData :: "string \<Rightarrow> validator_data option settled"
  validateNetwork :: "string \<Rightarrow> bool settled"
  getConversionRate :: "jsnum settled"
  sendUserOperationAsync :: "user_operation \<Rightarrow> string settled"
  getUserReferralCode :: "string \<Rightarrow> string \<Rightarrow> string settled"
  purchaseTracker :: "purchase \<Rightarrow> bool settled"

datatype action =
    PreventDefault
  | SetLoading bool
  | SetError string
  | AddBeforeUnload
  | RemoveBeforeUnload
  | Navigate string
  | SetTimeout "action list" nat
  | ConsoleLog jserror

datatype request =
    GetPartnerData string
  | ValidateNetwork string
  | GetConversionRate
  | SendUserOperation user_operation
  | GetUserReferralCode string string
  | PurchaseTracker purchase

datatype event = Did action | Called request

text \<open>
  An asynchronous function is a process: it performs effects, and at each \<^verbatim>\<open>await\<close> it
  hands a request to a collaborator and continues with the settled promise.
\<close>

datatype 'a proc =
    Return 'a
  | Throw jserror
  | Do action "'a proc"
  | AwaitPartnerData string "validator_data option settled \<Rightarrow> 'a proc"
  | AwaitNetwork string "bool settled \<Rightarrow> 'a proc"
  | AwaitConversionRate "jsnum settled \<Rightarrow> 'a proc"
  | AwaitSend user_operation "string settled \<Rightarrow> 'a proc"
  | AwaitReferralCode string string "string settled \<Rightarrow> 'a proc"
  | AwaitTracker purchase "bool settled \<Rightarrow> 'a proc"

primrec bind :: "'a proc \<Rightarrow> ('a \<Rightarrow> 'b proc) \<Rightarrow> 'b proc" where
  "bind (Return a) f = f a"
| "bind (Throw e) f = Throw e"
| "bind (Do a p) f = Do a (bind p f)"
| "bind (AwaitPartnerData i k) f = AwaitPartnerData i (\<lambda>r. bind (k r) f)"
| "bind (AwaitNetwork n k) f = AwaitNetwork n (\<lambda>r. bind (k r) f)"
| "bind (AwaitConversionRate k) f = AwaitConversionRate (\<lambda>r. bind (k r) f)"
| "bind (AwaitSend u k) f = AwaitSend u (\<lambda>r. bind (k r) f)"
| "bind (AwaitReferralCode a m k) f = AwaitReferralCode a m (\<lambda>r. bind (k r) f)"
| "bind (AwaitTracker t k) f = AwaitTracker t (\<lambda>r. bind (k r) f)"

text \<open>\<^verbatim>\<open>try { p } catch (error) { h error }\<close>: an error thrown by the handler is not caught.\<close>

primrec try_catch :: "'a proc \<Rightarrow> (jserror \<Rightarrow> 'a proc) \<Rightarrow> 'a proc" where
  "try_catch (Return a) h = Return a"
| "try_catch (Throw e) h = h e"
| "try_catch (Do a p) h = Do a (try_catch p h)"
| "try_catch (AwaitPartnerData i k) h = AwaitPartnerData i (\<lambda>r. try_catch (k r) h)"
| "try_catch (AwaitNetwork n k) h = AwaitNetwork n (\<lambda>r. try_catch (k r) h)"
| "try_catch (AwaitConversionRate k) h = AwaitConversionRate (\<lambda>r. try_catch (k r) h)"
| "try_catch (AwaitSend u k) h = AwaitSend u (\<lambda>r. try_catch (k r) h)"
| "try_catch (AwaitReferralCode a m k) h = AwaitReferralCode a m (\<lambda>r. try_catch (k r) h)"
| "try_catch (AwaitTracker t k) h = AwaitTracker t (\<lambda>r. try_catch (k r) h)"

text \<open>\<^verbatim>\<open>try { p } finally { fin }\<close>: \<open>fin\<close> runs after \<open>p\<close> returns and after \<open>p\<close> throws.\<close>

primrec try_finally :: "'a proc \<Rightarrow> unit proc \<Rightarrow> 'a proc" where
  "try_finally (Return a) fin = bind fin (\<lambda>_. Return a)"
| "try_finally (Throw e) fin = bind fin (\<lambda>_. Throw e)"
| "try_finally (Do a p) fin = Do a (try_finally p fin)"
| "try_finally (AwaitPartnerData i k) fin = AwaitPartnerData i (\<lambda>r. try_finally (k r) fin)"
| "try_finally (AwaitNetwork n k) fin = AwaitNetwork n (\<lambda>r. try_finally (k r) fin)"
| "try_finally (AwaitConversionRate k) fin = AwaitConversionRate (\<lambda>r. try_finally (k r) fin)"
| "try_finally (AwaitSend u k) fin = AwaitSend u (\<lambda>r. try_finally (k r) fin)"
| "try_finally (AwaitReferralCode a m k) fin = AwaitReferralCode a m (\<lambda>r. try_finally (k r) fin)"
| "try_finally (AwaitTracker t k) fin = AwaitTracker t (\<lambda>r. try_finally (k r) fin)"

text \<open>\<^verbatim>\<open>await\<close> of a promise: its value when it resolves, a throw when it rejects.\<close>

fun settle :: "'a settled \<Rightarrow> 'a proc" where
  "settle (Resolved v) = Return v"
| "settle (Rejected e) = Throw e"

text \<open>A sequence of statements that only perform effects.\<close>

fun perform :: "action list \<Rightarrow> 'a proc \<Rightarrow> 'a proc" where
  "perform [] p = p"
| "perform (a # as) p = Do a (perform as p)"

section \<open>The hook\<close>

subsection \<open>\<^verbatim>\<open>validateAmount\<close>\<close>

text \<open>The constant \<^verbatim>\<open>bonusValue\<close>: \<^verbatim>\<open>parseInt(String(amount >= 3 ? amount / 3 : 0))\<close>.\<close>

definition bonusValue :: "jsnum \<Rightarrow> jsnum" where
  "bonusValue a = parseInt (String_number (if js_ge a (Fin 3) then js_div a (Fin 3) else Fin 0))"

definition validateAmount :: "hooks \<Rightarrow> TransferType \<Rightarrow> bool proc" where
  "validateAmount h t =
     (case getPartnerId h of
        None \<Rightarrow> Return False
      | Some pid \<Rightarrow>
          if pid = [] then Return False
          else AwaitPartnerData pid (\<lambda>r. bind (settle r) (\<lambda>validator.
            case validator of
              None \<Rightarrow> Return False
            | Some v \<Rightarrow>
                if js_gt (js_add (amount t) (bonusValue (amount t))) (availableSmartNodes v)
                then Return False
                else Return True)))"

subsection \<open>\<^verbatim>\<open>transfer\<close>\<close>

text \<open>
  The constant \<^verbatim>\<open>weiValue\<close>: \<^verbatim>\<open>BigInt(Math.floor(totalInEth * 10 ** 18))\<close>, where
  \<^verbatim>\<open>10 ** 18\<close> is the binary64 value \<open>10^18\<close> exactly.
\<close>

definition weiValue :: "jsnum \<Rightarrow> jserror + int" where
  "weiValue eth = BigInt (Math_floor (js_mul eth (Fin (10 ^ 18))))"

text \<open>The body of the \<^verbatim>\<open>try\<close> block, with the stored email.\<close>

definition try_block :: "hooks \<Rightarrow> TransferType \<Rightarrow> string \<Rightarrow> unit proc" where
  "try_block h t mail =
     AwaitNetwork ''arbitrum'' (\<lambda>r. bind (settle r) (\<lambda>usingRightNetwork.
       if \<not> usingRightNetwork then
         perform [SetError ''Oops! Looks like you're using a wrong network'', SetLoading False]
           (Return ())
       else
         case (user h, data h, getPartnerId h) of
           (Some u, Some d, Some pid) \<Rightarrow>
             if pid = [] then Throw PlainError
             else
               (let usd = js_mul (currentPrice d) (amount t)
                in AwaitConversionRate (\<lambda>r. bind (settle r) (\<lambda>conversionRate.
                  let eth = js_div usd conversionRate
                  in case weiValue eth of
                       Inl e \<Rightarrow> Throw e
                     | Inr wei \<Rightarrow>
                         Do AddBeforeUnload
                           (AwaitSend \<lparr>uo_target = paymentsWallet d, uo_data = ''0x'', uo_value = wei\<rparr>
                             (\<lambda>r. bind (settle r) (\<lambda>hash.
                               AwaitReferralCode (address u) mail (\<lambda>r. bind (settle r) (\<lambda>code.
                                 AwaitTracker
                                   \<lparr>partnerId = pid, transactionHash = hash, totalInEth = eth,
                                    totalInUsd = usd, quantity = amount t,
                                    purchase_bonusPlan = bonusPlan t, wallet = address u,
                                    purchase_email = mail, userReferralCode = code,
                                    transactionReferralCode = referralCode t\<rparr>
                                   (\<lambda>r. bind (settle r) (\<lambda>status.
                                     perform [RemoveBeforeUnload, Navigate (encryptData h hash mail)]
                                       (if \<not> status then
                                          Do (SetError ''Oops! Looks like an error occurred while trying to complete your purchase.'')
                                            (Return ())
                                        else Return ())))))))))))
         | _ \<Rightarrow> Throw PlainError))"

text \<open>The body of the \<^verbatim>\<open>catch\<close> block.\<close>

definition catch_block :: "hooks \<Rightarrow> jserror \<Rightarrow> unit proc" where
  "catch_block h e =
     perform (if truthy (searchParams_get h ''debugging'') then [ConsoleLog e] else [])
       (if isInsufficientFundsError h e then
          Do (SetError ''Oops! You do not have sufficient funds to complete your purchase.'') (Return ())
        else if isRejectedError h e then
          Do (SetError ''Oops! Looks like you rejected the transaction signature.'') (Return ())
        else
          Do (SetError ''Oops! Looks like an error occurred while trying to complete your purchase.'')
            (Return ()))"

definition transfer :: "hooks \<Rightarrow> raw_props \<Rightarrow> unit proc" where
  "transfer h p =
     perform [PreventDefault, SetLoading True, SetError []]
       (case transferSchema_safeParse p of
          None \<Rightarrow>
            perform [SetError ''Oops! It looks like you didn't fill in the amount correctly'',
                     SetLoading False] (Return ())
        | Some t \<Rightarrow>
            bind (validateAmount h t) (\<lambda>validAmount.
              if \<not> validAmount then
                perform [SetError ''Oops! It looks like you are trying to buy more than we have available.'',
                         SetLoading False] (Return ())
              else
                case store_get h of
                  None \<Rightarrow>
                    perform [SetError ''Oops! Error to retrieve your email'', SetLoading False]
                      (Return ())
                | Some storage \<Rightarrow>
                    perform
                      (if truthy (searchParams_get h ''testSuccessModalOption'') then
                         [SetTimeout
                            [Navigate (encryptData h ''0x123456789abcdef'' (email storage)),
                             SetLoading False]
                            (3 * 1000)]
                       else [])
                      (try_finally
                         (try_catch (try_block h t (email storage)) (catch_block h))
                         (Do (SetLoading False) (Return ())))))"

subsection \<open>Running an attempt\<close>

text \<open>
  An attempt run against the collaborators: the effects and requests in the order they happen,
  and how the promise of the function settles (\<open>Inl\<close> for a rejection nobody caught).
\<close>

primrec run :: "collaborators \<Rightarrow> 'a proc \<Rightarrow> event list \<times> (jserror + 'a)" where
  "run c (Return a) = ([], Inr a)"
| "run c (Throw e) = ([], Inl e)"
| "run c (Do a p) = (case run c p of (es, r) \<Rightarrow> (Did a # es, r))"
| "run c (AwaitPartnerData i k) =
     (case run c (k (getPartnerData c i)) of (es, r) \<Rightarrow> (Called (GetPartnerData i) # es, r))"
| "run c (AwaitNetwork n k) =
     (case run c (k (validateNetwork c n)) of (es, r) \<Rightarrow> (Called (ValidateNetwork n) # es, r))"
| "run c (AwaitConversionRate k) =
     (case run c (k (getConversionRate c)) of (es, r) \<Rightarrow> (Called GetConversionRate # es, r))"
| "run c (AwaitSend u k) =
     (case run c (k (sendUserOperationAsync c u)) of (es, r) \<Rightarrow> (Called (SendUserOperation u) # es, r))"
| "run c (AwaitReferralCode a m k) =
     (case run c (k (getUserReferralCode c a m)) of (es, r) \<Rightarrow>
        (Called (GetUserReferralCode a m) # es, r))"
| "run c (AwaitTracker t k) =
     (case run c (k (purchaseTracker c t)) of (es, r) \<Rightarrow> (Called (PurchaseTracker t) # es, r))"

definition trace :: "collaborators \<Rightarrow> hooks \<Rightarrow> raw_props \<Rightarrow> event list" where
  "trace c h p = fst (run c (transfer h p))"

text \<open>What happens before the first \<^verbatim>\<open>await\<close> suspends the function.\<close>

primrec first_turn :: "'a proc \<Rightarrow> event list" where
  "first_turn (Return a) = []"
| "first_turn (Throw e) = []"
| "first_turn (Do a p) = Did a # first_turn p"
| "first_turn (AwaitPartnerData i k) = [Called (GetPartnerData i)]"
| "first_turn (AwaitNetwork n k) = [Called (ValidateNetwork n)]"
| "first_turn (AwaitConversionRate k) = [Called GetConversionRate]"
| "first_turn (AwaitSend u k) = [Called (SendUserOperation u)]"
| "first_turn (AwaitReferralCode a m k) = [Called (GetUserReferralCode a m)]"
| "first_turn (AwaitTracker t k) = [Called (PurchaseTracker t)]"

subsection \<open>The state the page sees\<close>

text \<open>
  The two state variables of the hook (\<^verbatim>\<open>loading\<close>, \<^verbatim>\<open>error\<close>), whether the
  \<^verbatim>\<open>beforeunload\<close> listener \<^verbatim>\<open>preventCloseTab\<close> is registered, the navigations made, the
  timers pending and the console.
\<close>

record hook_state =
  loading :: bool
  error :: string
  beforeunload :: bool
  navigations :: "string list"
  timers :: "(action list \<times> nat) list"
  console :: "jserror list"

definition initial :: hook_state where
  "initial = \<lparr>loading = False, error = [], beforeunload = False, navigations = [],
              timers = [], console = []\<rparr>"

fun apply_action :: "action \<Rightarrow> hook_state \<Rightarrow> hook_state" where
  "apply_action PreventDefault s = s"
| "apply_action (SetLoading b) s = s\<lparr>loading := b\<rparr>"
| "apply_action (SetError m) s = s\<lparr>error := m\<rparr>"
| "apply_action AddBeforeUnload s = s\<lparr>beforeunload := True\<rparr>"
| "apply_action RemoveBeforeUnload s = s\<lparr>beforeunload := False\<rparr>"
| "apply_action (Navigate q) s = s\<lparr>navigations := navigations s @ [q]\<rparr>"
| "apply_action (SetTimeout cb ms) s = s\<lparr>timers := timers s @ [(cb, ms)]\<rparr>"
| "apply_action (ConsoleLog e) s = s\<lparr>console := console s @ [e]\<rparr>"

fun apply_event :: "event \<Rightarrow> hook_state \<Rightarrow> hook_state" where
  "apply_event (Did a) s = apply_action a s"
| "apply_event (Called r) s = s"

definition after :: "hook_state \<Rightarrow> event list \<Rightarrow> hook_state" where
  "after s es = fold apply_event es s"

text \<open>The requests of a trace, by collaborator.\<close>

fun requests :: "event list \<Rightarrow> request list" where
  "requests [] = []"
| "requests (Did a # es) = requests es"
| "requests (Called r # es) = r # requests es"

fun submissions :: "event list \<Rightarrow> user_operation list" where
  "submissions [] = []"
| "submissions (Called (SendUserOperation u) # es) = u # submissions es"
| "submissions (e # es) = submissions es"

fun ledger_records :: "event list \<Rightarrow> purchase list" where
  "ledger_records [] = []"
| "ledger_records (Called (PurchaseTracker t) # es) = t # ledger_records es"
| "ledger_records (e # es) = ledger_records es"

section \<open>Reference scenario and the specification's formulas\<close>

text \<open>
  A purchase in which every collaborator answers: a partner selling at \<open>price\<close> with \<open>cap\<close>
  nodes available, an oracle rate \<open>rate\<close>, a wallet that returns the hash \<^verbatim>\<open>0xHASH\<close>.
\<close>

definition scenario_hooks :: "rat \<Rightarrow> hooks" where
  "scenario_hooks price =
     \<lparr>getPartnerId = Some ''partner-1'',
      data = Some \<lparr>currentPrice = Fin price, paymentsWallet = ''0xPAY''\<rparr>,
      user = Some \<lparr>address = ''0xUSER''\<rparr>,
      store_get = Some \<lparr>email = ''ada@example.org''\<rparr>,
      searchParams_get = (\<lambda>_. None),
      isInsufficientFundsError = (\<lambda>e. e = Rejection ''insufficient funds''),
      isRejectedError = (\<lambda>e. e = Rejection ''user rejected''),
      encryptData = (\<lambda>hash mail. hash @ '','' @ mail)\<rparr>"

definition scenario_collaborators :: "rat \<Rightarrow> rat \<Rightarrow> collaborators" where
  "scenario_collaborators cap rate =
     \<lparr>getPartnerData = (\<lambda>_. Resolved (Some \<lparr>availableSmartNodes = Fin cap\<rparr>)),
      validateNetwork = (\<lambda>_. Resolved True),
      getConversionRate = Resolved (Fin rate),
      sendUserOperationAsync = (\<lambda>_. Resolved ''0xHASH''),
      getUserReferralCode = (\<lambda>_ _. Resolved ''REF-1''),
      purchaseTracker = (\<lambda>_. Resolved True)\<rparr>"

definition scenario_props :: "rat \<Rightarrow> raw_props" where
  "scenario_props q =
     \<lparr>raw_referralCode = JStr ''friend'', raw_amount = JNum (Fin q), raw_bonusPlan = JNum (Fin 1)\<rparr>"

text \<open>
  The amount as the specification writes it, in exact arithmetic:
  \<open>floor((currentPrice * quantity / rate) * 10^18)\<close>.
\<close>

definition spec_amount :: "rat \<Rightarrow> rat \<Rightarrow> rat \<Rightarrow> int" where
  "spec_amount price qty rate = \<lfloor>(price * qty / rate) * 10 ^ 18\<rfloor>"

text \<open>The bonus as the specification writes it: \<open>floor(quantity / 3)\<close> from 3 on, else 0.\<close>

definition spec_bonus :: "rat \<Rightarrow> int" where
  "spec_bonus qty = (if 3 \<le> qty then \<lfloor>qty / 3\<rfloor> else 0)"

text \<open>
  Two calls of \<^verbatim>\<open>transfer\<close> on one instance of the hook, the second made while the first is
  suspended at its first \<^verbatim>\<open>await\<close>: the first call's first turn, then the second attempt,
  then the rest of the first.
\<close>

definition second_call_during_first ::
  "collaborators \<Rightarrow> hooks \<Rightarrow> raw_props \<Rightarrow> raw_props \<Rightarrow> event list" where
  "second_call_during_first c h p1 p2 =
     first_turn (transfer h p1) @ trace c h p2 @
     drop (length (first_turn (transfer h p1))) (trace c h p1)"

section \<open>Evaluation and composition lemmas\<close>

lemma floor_rat_numeral [simp]: "\<lfloor>(numeral a :: rat) / numeral b\<rfloor> = numeral a div numeral b"
  using floor_divide_of_int_eq [of "numeral a" "numeral b", where ?'a = rat] by simp

lemma floor_rat_one [simp]: "\<lfloor>(1 :: rat) / numeral b\<rfloor> = 1 div numeral b"
  using floor_divide_of_int_eq [of 1 "numeral b", where ?'a = rat] by simp

lemmas round_defs = round_mag_def binexp_def ilog2.simps pow2_def round_half_even_def

lemmas show_defs = shortest_digits_def shortest_from.simps decexp_def ndigits.simps pow10_def
  digits_of_length_def reads_back_def show_positive_def show_int.simps digit_char_def

lemmas parse_defs = parseInt_def is_space_def digit_value_def from_exact_def

lemmas hook_defs = trace_def transfer_def validateAmount_def try_block_def catch_block_def Let_def

lemmas scenario_defs = scenario_hooks_def scenario_collaborators_def scenario_props_def
  transferSchema_safeParse_def

text \<open>Running a process built with \<open>bind\<close>, \<open>try_catch\<close>, \<open>try_finally\<close> and \<open>perform\<close>.\<close>

lemma settle_case: "settle r = (case r of Resolved v \<Rightarrow> Return v | Rejected e \<Rightarrow> Throw e)"
  by (cases r) simp_all

lemma run_bind:
  "run c (bind p f) =
     (case run c p of
        (es, Inl e) \<Rightarrow> (es, Inl e)
      | (es, Inr a) \<Rightarrow> (case run c (f a) of (es', r) \<Rightarrow> (es @ es', r)))"
  by (induction p) (auto split: prod.splits sum.splits)

lemma run_try_catch:
  "run c (try_catch p h) =
     (case run c p of
        (es, Inl e) \<Rightarrow> (case run c (h e) of (es', r) \<Rightarrow> (es @ es', r))
      | (es, Inr a) \<Rightarrow> (es, Inr a))"
  by (induction p) (auto split: prod.splits sum.splits)

lemma run_try_finally:
  "run c (try_finally p fin) =
     (case run c p of (es, r) \<Rightarrow>
        (case run c fin of
           (es', Inl e) \<Rightarrow> (es @ es', Inl e)
         | (es', Inr u) \<Rightarrow> (es @ es', r)))"
  by (induction p) (auto simp: run_bind split: prod.splits sum.splits)

lemma run_perform: "run c (perform as p) = (case run c p of (es, r) \<Rightarrow> (map Did as @ es, r))"
  by (induction as) (auto split: prod.splits)

lemma first_turn_perform: "first_turn (perform as p) = map Did as @ first_turn p"
  by (induction as) simp_all

lemma after_Nil: "after s [] = s"
  by (simp add: after_def)

lemma after_Cons: "after s (e # es) = after (apply_event e s) es"
  by (simp add: after_def)

lemma after_append: "after s (es @ fs) = after (after s es) fs"
  by (simp add: after_def)

lemmas after_simps = after_Nil after_Cons after_append

text \<open>Below 3 the bonus is \<^verbatim>\<open>parseInt("0")\<close>; the other values are computed digit by digit.\<close>

lemma bonus_below_3: "\<not> js_ge a (Fin 3) \<Longrightarrow> bonusValue a = Fin 0"
  by (simp add: bonusValue_def show_defs parse_defs round_defs split del: if_split)

lemma bonus_2: "bonusValue (Fin 2) = Fin 0"
  by (simp add: bonus_below_3 js_ge_def)

lemma bonus_3: "bonusValue (Fin 3) = Fin 1"
  by (simp add: bonusValue_def js_ge_def js_div_def show_defs parse_defs round_defs
      split del: if_split)

lemma bonus_4: "bonusValue (Fin 4) = Fin 1"
  by (simp add: bonusValue_def js_ge_def js_div_def show_defs parse_defs round_defs
      split del: if_split)

lemma bonus_5: "bonusValue (Fin 5) = Fin 1"
  by (simp add: bonusValue_def js_ge_def js_div_def show_defs parse_defs round_defs
      split del: if_split)

lemma bonus_6: "bonusValue (Fin 6) = Fin 2"
  by (simp add: bonusValue_def js_ge_def js_div_def show_defs parse_defs round_defs
      split del: if_split)

lemma bonus_9: "bonusValue (Fin 9) = Fin 3"
  by (simp add: bonusValue_def js_ge_def js_div_def show_defs parse_defs round_defs
      split del: if_split)

lemma bonus_10: "bonusValue (Fin 10) = Fin 3"
  by (simp add: bonusValue_def js_ge_def js_div_def show_defs parse_defs round_defs
      split del: if_split)

lemma bonus_3e21: "bonusValue (Fin 3000000000000000000000) = Fin 1"
  by (simp add: bonusValue_def js_ge_def js_div_def show_defs parse_defs round_defs
      split del: if_split)

lemma bonus_2p53_2: "bonusValue (Fin 9007199254740994) = Fin 3002399751580331"
  by (simp add: bonusValue_def js_ge_def js_div_def show_defs parse_defs round_defs
      split del: if_split)

text \<open>The arithmetic of the scenarios used below.\<close>

lemma sum_2_0: "js_add (Fin 2) (Fin 0) = Fin 2"
  by (simp add: js_add_def from_exact_def round_defs split del: if_split)

lemma sum_2p53_2: "js_add (Fin 9007199254740994) (Fin 3002399751580331) = Fin 12009599006321324"
  by (simp add: js_add_def from_exact_def round_defs split del: if_split)

lemma capacity_10_100: "\<not> js_gt (js_add (Fin 10) (bonusValue (Fin 10))) (Fin 100)"
  by (simp add: bonus_10 js_gt_def js_add_def from_exact_def round_defs split del: if_split)

lemma capacity_1_100: "\<not> js_gt (js_add (Fin 1) (bonusValue (Fin 1))) (Fin 100)"
  by (simp add: bonus_below_3 js_ge_def js_gt_def js_add_def from_exact_def round_defs
      split del: if_split)

lemma capacity_minus1_100: "\<not> js_gt (js_add (Fin (- 1)) (bonusValue (Fin (- 1)))) (Fin 100)"
  by (simp add: bonus_below_3 js_ge_def js_gt_def js_add_def from_exact_def round_defs
      split del: if_split)

lemma wei_5_2_2000: "weiValue (js_div (js_mul (Fin 5) (Fin 2)) (Fin 2000)) = Inr 5000000000000000"
  by (simp add: weiValue_def js_div_def js_mul_def from_exact_def round_defs split del: if_split)

lemma wei_5_10_2000: "weiValue (js_div (js_mul (Fin 5) (Fin 10)) (Fin 2000)) = Inr 25000000000000000"
  by (simp add: weiValue_def js_div_def js_mul_def from_exact_def round_defs split del: if_split)

lemma wei_1_1_3: "weiValue (js_div (js_mul (Fin 1) (Fin 1)) (Fin 3)) = Inr 333333333333333312"
  by (simp add: weiValue_def js_div_def js_mul_def from_exact_def round_defs split del: if_split)

lemma wei_5_minus1_2000:
  "weiValue (js_div (js_mul (Fin 5) (Fin (- 1))) (Fin 2000)) = Inr (- 2500000000000000)"
  by (simp add: weiValue_def js_div_def js_mul_def from_exact_def round_defs split del: if_split)

lemma wei_5_2p53_2_2000:
  "weiValue (js_div (js_mul (Fin 5) (Fin 9007199254740994)) (Fin 2000)) =
     Inr 22517998136852484503599627370496"
  by (simp add: weiValue_def js_div_def js_mul_def from_exact_def round_defs split del: if_split)

text \<open>Rounding keeps the sign: products and quotients of non-negative numbers are not negative.\<close>

lemma pow2_pos: "0 < pow2 e"
  by (simp add: pow2_def)

lemma round_half_even_nonneg: "0 \<le> q \<Longrightarrow> 0 \<le> round_half_even q"
  by (auto simp add: round_half_even_def Let_def)

lemma round_mag_nonneg: "0 \<le> m \<Longrightarrow> round_mag m = Some r \<Longrightarrow> 0 \<le> r"
  by (auto simp add: round_mag_def Let_def pow2_pos round_half_even_nonneg less_imp_le
      split: if_splits)

lemma from_exact_nonneg: "0 \<le> m \<Longrightarrow> \<not> is_neg (from_exact False m)"
  by (auto simp add: from_exact_def dest: round_mag_nonneg split: option.splits)

lemma js_mul_nonneg: "\<not> is_neg x \<Longrightarrow> \<not> is_neg y \<Longrightarrow> \<not> is_neg (js_mul x y)"
  by (simp add: js_mul_def signed_inf_def from_exact_nonneg)

lemma js_div_nonneg: "\<not> is_neg x \<Longrightarrow> \<not> is_neg y \<Longrightarrow> \<not> is_neg (js_div x y)"
  by (simp add: js_div_def signed_inf_def signed_zero_def from_exact_nonneg)

lemma Math_floor_nonneg: "\<not> is_neg x \<Longrightarrow> \<not> is_neg (Math_floor x)"
  by (cases x) simp_all

lemma BigInt_nonneg: "\<not> is_neg x \<Longrightarrow> BigInt x = Inr w \<Longrightarrow> 0 \<le> w"
  by (cases x) (auto split: if_splits)

lemma weiValue_nonneg: "\<not> is_neg eth \<Longrightarrow> weiValue eth = Inr w \<Longrightarrow> 0 \<le> w"
  unfolding weiValue_def
  by (rule BigInt_nonneg [of "Math_floor (js_mul eth (Fin (10 ^ 18)))"])
     (simp_all add: Math_floor_nonneg js_mul_nonneg)

text \<open>
  What must have happened for the wallet to be asked to submit, and for the purchase tracker to
  be asked to record: every earlier step of \<^verbatim>\<open>transfer\<close> went through.
\<close>

lemma submission_path:
  assumes "Called (SendUserOperation uo) \<in> set (trace c h p)"
  shows "\<exists>t pid v st u d rate.
           transferSchema_safeParse p = Some t
           \<and> getPartnerId h = Some pid \<and> pid \<noteq> []
           \<and> getPartnerData c pid = Resolved (Some v)
           \<and> \<not> js_gt (js_add (amount t) (bonusValue (amount t))) (availableSmartNodes v)
           \<and> store_get h = Some st
           \<and> validateNetwork c ''arbitrum'' = Resolved True
           \<and> user h = Some u \<and> data h = Some d
           \<and> getConversionRate c = Resolved rate
           \<and> weiValue (js_div (js_mul (currentPrice d) (amount t)) rate) = Inr (uo_value uo)
           \<and> uo = \<lparr>uo_target = paymentsWallet d, uo_data = ''0x'', uo_value = uo_value uo\<rparr>"
  using assms
  by (auto simp add: hook_defs settle_case run_perform
      split: option.splits settled.splits sum.splits if_splits prod.splits)

lemma ledger_path:
  assumes "Called (PurchaseTracker r) \<in> set (trace c h p)"
  shows "\<exists>t pid v st u d rate wei hash code.
           transferSchema_safeParse p = Some t
           \<and> getPartnerId h = Some pid \<and> pid \<noteq> []
           \<and> getPartnerData c pid = Resolved (Some v)
           \<and> \<not> js_gt (js_add (amount t) (bonusValue (amount t))) (availableSmartNodes v)
           \<and> store_get h = Some st
           \<and> validateNetwork c ''arbitrum'' = Resolved True
           \<and> user h = Some u \<and> data h = Some d
           \<and> getConversionRate c = Resolved rate
           \<and> weiValue (js_div (js_mul (currentPrice d) (amount t)) rate) = Inr wei
           \<and> sendUserOperationAsync c
                \<lparr>uo_target = paymentsWallet d, uo_data = ''0x'', uo_value = wei\<rparr> = Resolved hash
           \<and> getUserReferralCode c (address u) (email st) = Resolved code
           \<and> r = \<lparr>partnerId = pid, transactionHash = hash,
                  totalInEth = js_div (js_mul (currentPrice d) (amount t)) rate,
                  totalInUsd = js_mul (currentPrice d) (amount t), quantity = amount t,
                  purchase_bonusPlan = bonusPlan t, wallet = address u,
                  purchase_email = email st, userReferralCode = code,
                  transactionReferralCode = referralCode t\<rparr>"
  using assms
  by (auto simp add: hook_defs settle_case run_perform
      split: option.splits settled.splits sum.splits if_splits prod.splits)

lemma ledger_records_member: "r \<in> set (ledger_records es) \<Longrightarrow> Called (PurchaseTracker r) \<in> set es"
  by (induction es rule: ledger_records.induct) auto

text \<open>Neither the \<^verbatim>\<open>try\<close> block nor the \<^verbatim>\<open>catch\<close> block sets a timer.\<close>

lemma timers_catch_block: "timers (after s (fst (run c (catch_block h e)))) = timers s"
  by (simp add: catch_block_def after_simps)

lemma timers_try_block: "timers (after s (fst (run c (try_block h t m)))) = timers s"
  by (auto simp add: try_block_def after_simps Let_def settle_case
      split: settled.splits option.splits sum.splits prod.splits)

section \<open>Price conversion\<close>

text \<open>
  Claim C1, as stated, fails. The specification's amount is the exact
  \<open>floor((currentPrice * quantity / rate) * 10^18)\<close>, a non-negative integer. The code computes in
  binary64 arithmetic: for price 1, quantity 1 and rate 3 it submits 333333333333333312 where the
  exact formula gives 333333333333333333. And nothing in the code keeps the amount non-negative:
  for quantity -1 (which passes the schema and the capacity check) at price 5 and rate 2000 it
  submits -2500000000000000.
\<close>

theorem wei_amount_counterexample:
  "map uo_value (submissions
      (trace (scenario_collaborators 100 3) (scenario_hooks 1) (scenario_props 1))) =
     [333333333333333312]
   \<and> spec_amount 1 1 3 = 333333333333333333
   \<and> map uo_value (submissions
      (trace (scenario_collaborators 100 2000) (scenario_hooks 5) (scenario_props (- 1)))) =
     [- 2500000000000000]"
  using capacity_1_100 capacity_minus1_100
  by (simp add: hook_defs scenario_defs spec_amount_def wei_1_1_3 wei_5_minus1_2000)

text \<open>
  Claim C1, amended. In every execution that reaches the price conversion (the schema, the
  capacity check, the stored identity, the network check and the oracle call went through), at
  most one amount is submitted: the value of
  \<^verbatim>\<open>BigInt(Math.floor(((currentPrice * amount) / conversionRate) * 10 ** 18))\<close> computed in
  binary64 arithmetic, and nothing when that number is not finite. The amount is not negative
  when price, quantity and rate are not negative.
\<close>

theorem wei_amount_submitted:
  assumes "transferSchema_safeParse p = Some t"
    and "getPartnerId h = Some pid" and "pid \<noteq> []"
    and "getPartnerData c pid = Resolved (Some v)"
    and "\<not> js_gt (js_add (amount t) (bonusValue (amount t))) (availableSmartNodes v)"
    and "store_get h = Some st"
    and "validateNetwork c ''arbitrum'' = Resolved True"
    and "user h = Some u" and "data h = Some d"
    and "getConversionRate c = Resolved rate"
  shows "map uo_value (submissions (trace c h p)) =
           (case weiValue (js_div (js_mul (currentPrice d) (amount t)) rate) of
              Inl e \<Rightarrow> [] | Inr wei \<Rightarrow> [wei])
         \<and> (\<not> is_neg (currentPrice d) \<and> \<not> is_neg (amount t) \<and> \<not> is_neg rate \<longrightarrow>
              list_all (\<lambda>w. 0 \<le> w) (map uo_value (submissions (trace c h p))))"
proof -
  let ?eth = "js_div (js_mul (currentPrice d) (amount t)) rate"
  have sub: "map uo_value (submissions (trace c h p)) =
      (case weiValue ?eth of Inl e \<Rightarrow> [] | Inr wei \<Rightarrow> [wei])"
    using assms
    by (auto simp add: hook_defs settle_case
        split: settled.splits sum.splits prod.splits)
  have "0 \<le> w" if "\<not> is_neg (currentPrice d)" "\<not> is_neg (amount t)" "\<not> is_neg rate"
      "weiValue ?eth = Inr w" for w
    using that weiValue_nonneg [of ?eth w] js_div_nonneg [of "js_mul (currentPrice d) (amount t)" rate]
      js_mul_nonneg [of "currentPrice d" "amount t"]
    by blast
  with sub show ?thesis
    by (auto split: sum.splits)
qed

text \<open>
  The scenario of the specification: quantity 10, price 5, rate 2000; the submitted amount is
  exactly 25000000000000000.
\<close>

theorem wei_amount_submitted_witness:
  "\<not> js_gt (js_add (Fin 10) (bonusValue (Fin 10))) (Fin 100)
   \<and> map uo_value (submissions
        (trace (scenario_collaborators 100 2000) (scenario_hooks 5) (scenario_props 10))) =
       [25000000000000000]"
proof -
  have parsed: "transferSchema_safeParse (scenario_props 10) =
      Some \<lparr>referralCode = ''friend'', amount = Fin 10, bonusPlan = Fin 1\<rparr>"
    by (simp add: scenario_defs)
  show ?thesis
    using capacity_10_100 wei_5_10_2000
      wei_amount_submitted [OF parsed, of "scenario_hooks 5" "''partner-1''"
        "scenario_collaborators 100 2000" "\<lparr>availableSmartNodes = Fin 100\<rparr>"
        "\<lparr>email = ''ada@example.org''\<rparr>" "\<lparr>address = ''0xUSER''\<rparr>"
        "\<lparr>currentPrice = Fin 5, paymentsWallet = ''0xPAY''\<rparr>" "Fin 2000"]
    by (simp add: scenario_defs)
qed

section \<open>Capacity validation\<close>

text \<open>
  Claim C2, as stated, fails. The code adds quantity and bonus in binary64 arithmetic, and the
  rounded sum can be smaller than the exact one. For the quantity 9007199254740994 the bonus is
  3002399751580331; the exact sum 12009599006321325 exceeds a capacity of 12009599006321324, but
  the sum the code compares is rounded (a tie, to even) to 12009599006321324, which does not.
  The check passes, the wallet is asked to submit and no error is shown.
\<close>

theorem rounded_capacity_sum_counterexample:
  "bonusValue (Fin 9007199254740994) = Fin 3002399751580331
   \<and> 12009599006321324 < 9007199254740994 + rat_of (bonusValue (Fin 9007199254740994))
   \<and> js_add (Fin 9007199254740994) (bonusValue (Fin 9007199254740994)) = Fin 12009599006321324
   \<and> map uo_value (submissions (trace (scenario_collaborators 12009599006321324 2000)
        (scenario_hooks 5) (scenario_props 9007199254740994))) =
       [22517998136852484503599627370496]
   \<and> error (after initial (trace (scenario_collaborators 12009599006321324 2000)
        (scenario_hooks 5) (scenario_props 9007199254740994))) = []"
  by (simp add: hook_defs scenario_defs after_simps initial_def bonus_2p53_2 sum_2p53_2
      js_gt_def wei_5_2p53_2_2000)

text \<open>
  Claim C2, amended. For a request that passes the schema and a partner whose lookup returns
  its data: when quantity plus bonus, added as the code adds them (in binary64 arithmetic,
  rounded to the nearest value), exceeds the partner's \<^verbatim>\<open>availableSmartNodes\<close>, the attempt
  ends with the capacity message and the loading flag cleared; the only request made is the
  partner lookup, so the wallet is never asked to submit.
\<close>

theorem insufficient_capacity_aborts:
  assumes "transferSchema_safeParse p = Some t"
    and "getPartnerId h = Some pid" and "pid \<noteq> []"
    and "getPartnerData c pid = Resolved (Some v)"
    and "js_gt (js_add (amount t) (bonusValue (amount t))) (availableSmartNodes v)"
  shows "error (after initial (trace c h p)) =
           ''Oops! It looks like you are trying to buy more than we have available.''
         \<and> loading (after initial (trace c h p)) = False
         \<and> requests (trace c h p) = [GetPartnerData pid]
         \<and> submissions (trace c h p) = []"
  using assms by (simp add: hook_defs after_def initial_def)

text \<open>The scenario of the specification: quantity 2 (bonus 0) against a capacity of 1.\<close>

theorem insufficient_capacity_aborts_witness:
  "js_gt (js_add (Fin 2) (bonusValue (Fin 2))) (Fin 1)
   \<and> error (after initial
        (trace (scenario_collaborators 1 2000) (scenario_hooks 5) (scenario_props 2))) =
       ''Oops! It looks like you are trying to buy more than we have available.''
   \<and> submissions (trace (scenario_collaborators 1 2000) (scenario_hooks 5) (scenario_props 2)) = []"
proof -
  have gt: "js_gt (js_add (Fin 2) (bonusValue (Fin 2))) (Fin 1)"
    by (simp add: bonus_2 sum_2_0 js_gt_def)
  have parsed: "transferSchema_safeParse (scenario_props 2) =
      Some \<lparr>referralCode = ''friend'', amount = Fin 2, bonusPlan = Fin 1\<rparr>"
    by (simp add: scenario_defs)
  show ?thesis
    using gt insufficient_capacity_aborts [OF parsed,
        of "scenario_hooks 5" "''partner-1''" "scenario_collaborators 1 2000"
           "\<lparr>availableSmartNodes = Fin 1\<rparr>"]
    by (simp add: scenario_defs)
qed

text \<open>
  Claim C3. The code computes the bonus as \<^verbatim>\<open>parseInt(String(amount / 3))\<close>. On the quantities the
  specification lists (0, 1, 2, 3, 4, 5, 6, 9, 10) this is \<open>floor(quantity / 3)\<close> from 3 on and 0
  below. For the quantity \<open>3 * 10^21\<close> it is not: \<^verbatim>\<open>String(1e21)\<close> is \<^verbatim>\<open>"1e+21"\<close>, of which
  \<^verbatim>\<open>parseInt\<close> reads the digit before the exponent mark, so the bonus is 1 where
  \<open>floor(quantity / 3)\<close> is \<open>10^21\<close>.
\<close>

theorem bonus_of_3e21:
  "bonusValue (Fin 3000000000000000000000) = Fin 1
   \<and> spec_bonus 3000000000000000000000 = 1000000000000000000000"
  by (simp add: bonusValue_def spec_bonus_def js_ge_def js_div_def show_defs parse_defs round_defs
      split del: if_split)




section \<open>Schema validation\<close>

text \<open>
  Claim C6, as stated, fails: \<^verbatim>\<open>z.string()\<close> accepts the empty string, so a request with an
  empty referral code passes the schema and the attempt goes on to ask the partner catalogue and
  the network validator, with no error message.
\<close>

theorem empty_referral_code_counterexample:
  "z_string (JStr []) = Some []
   \<and> transferSchema_safeParse
        \<lparr>raw_referralCode = JStr [], raw_amount = JNum (Fin 2), raw_bonusPlan = JNum (Fin 1)\<rparr> =
       Some \<lparr>referralCode = [], amount = Fin 2, bonusPlan = Fin 1\<rparr>
   \<and> take 2 (requests (trace (scenario_collaborators 100 2000) (scenario_hooks 5)
        \<lparr>raw_referralCode = JStr [], raw_amount = JNum (Fin 2), raw_bonusPlan = JNum (Fin 1)\<rparr>)) =
       [GetPartnerData ''partner-1'', ValidateNetwork ''arbitrum'']
   \<and> error (after initial (trace (scenario_collaborators 100 2000) (scenario_hooks 5)
        \<lparr>raw_referralCode = JStr [], raw_amount = JNum (Fin 2), raw_bonusPlan = JNum (Fin 1)\<rparr>)) = []"
  by (simp add: hook_defs scenario_defs after_def initial_def bonus_2 sum_2_0 js_gt_def
      wei_5_2_2000)

text \<open>
  Claim C6, amended. When the referral code is not a string, or the quantity is not a number
  (\<open>NaN\<close> is refused as well), or the bonus plan is not a number, the attempt ends with the
  invalid-input message and the loading flag cleared, and no collaborator is asked anything.
\<close>

theorem invalid_input_rejected:
  assumes "z_string (raw_referralCode p) = None \<or> z_number (raw_amount p) = None
           \<or> z_number (raw_bonusPlan p) = None"
  shows "requests (trace c h p) = []
         \<and> error (after initial (trace c h p)) =
             ''Oops! It looks like you didn't fill in the amount correctly''
         \<and> loading (after initial (trace c h p)) = False"
  using assms
  by (auto simp add: hook_defs transferSchema_safeParse_def after_def initial_def
      split: option.splits)

text \<open>The amended claim at a request whose quantity is a string.\<close>

theorem invalid_input_rejected_witness:
  "z_number (JStr ''ten'') = None
   \<and> requests (trace (scenario_collaborators 100 2000) (scenario_hooks 5)
        \<lparr>raw_referralCode = JStr ''friend'', raw_amount = JStr ''ten'',
         raw_bonusPlan = JNum (Fin 1)\<rparr>) = []
   \<and> error (after initial (trace (scenario_collaborators 100 2000) (scenario_hooks 5)
        \<lparr>raw_referralCode = JStr ''friend'', raw_amount = JStr ''ten'',
         raw_bonusPlan = JNum (Fin 1)\<rparr>)) =
       ''Oops! It looks like you didn't fill in the amount correctly''"
  using invalid_input_rejected [of
      "\<lparr>raw_referralCode = JStr ''friend'', raw_amount = JStr ''ten'', raw_bonusPlan = JNum (Fin 1)\<rparr>"
      "scenario_collaborators 100 2000" "scenario_hooks 5"]
  by simp

section \<open>Submission and recording\<close>

text \<open>
  Claim C4, as stated, fails: the referral code is requested between the submission and the
  ledger record, inside the same \<^verbatim>\<open>try\<close> block. When that request is rejected after the
  wallet has returned a hash, the purchase tracker is never called.
\<close>

theorem referral_failure_skips_ledger_counterexample:
  "map uo_value (submissions (trace
      ((scenario_collaborators 100 2000)
         \<lparr>getUserReferralCode := \<lambda>_ _. Rejected (Rejection ''unavailable'')\<rparr>)
      (scenario_hooks 5) (scenario_props 2))) = [5000000000000000]
   \<and> ledger_records (trace
      ((scenario_collaborators 100 2000)
         \<lparr>getUserReferralCode := \<lambda>_ _. Rejected (Rejection ''unavailable'')\<rparr>)
      (scenario_hooks 5) (scenario_props 2)) = []"
  by (simp add: hook_defs scenario_defs bonus_2 sum_2_0 js_gt_def wei_5_2_2000)

text \<open>
  Claim C4, amended. In every execution in which the wallet submission succeeds and the referral
  code is issued, exactly one ledger record is attempted; it carries the hash the wallet returned
  and the referral code issued.
\<close>

theorem one_ledger_record_with_hash:
  assumes "Called (SendUserOperation uo) \<in> set (trace c h p)"
    and "sendUserOperationAsync c uo = Resolved hash"
    and "user h = Some u" and "store_get h = Some st"
    and "getUserReferralCode c (address u) (email st) = Resolved code"
  shows "\<exists>r. ledger_records (trace c h p) = [r] \<and> transactionHash r = hash
              \<and> userReferralCode r = code"
proof -
  from submission_path [OF assms(1)] obtain t pid v st' u' d rate where path:
    "transferSchema_safeParse p = Some t" "getPartnerId h = Some pid" "pid \<noteq> []"
    "getPartnerData c pid = Resolved (Some v)"
    "\<not> js_gt (js_add (amount t) (bonusValue (amount t))) (availableSmartNodes v)"
    "store_get h = Some st'" "validateNetwork c ''arbitrum'' = Resolved True"
    "user h = Some u'" "data h = Some d" "getConversionRate c = Resolved rate"
    "weiValue (js_div (js_mul (currentPrice d) (amount t)) rate) = Inr (uo_value uo)"
    "uo = \<lparr>uo_target = paymentsWallet d, uo_data = ''0x'', uo_value = uo_value uo\<rparr>"
    by blast
  from path(6,8) assms(3,4) have same: "st' = st" "u' = u"
    by simp_all
  have sent: "sendUserOperationAsync c
      \<lparr>uo_target = paymentsWallet d, uo_data = ''0x'', uo_value = uo_value uo\<rparr> = Resolved hash"
    using assms(2) path(12) by simp
  show ?thesis
    using path(1-5,7,9-11) assms(3-5) sent
    by (cases "purchaseTracker c
          \<lparr>partnerId = pid, transactionHash = hash,
           totalInEth = js_div (js_mul (currentPrice d) (amount t)) rate,
           totalInUsd = js_mul (currentPrice d) (amount t), quantity = amount t,
           purchase_bonusPlan = bonusPlan t, wallet = address u,
           purchase_email = email st, userReferralCode = code,
           transactionReferralCode = referralCode t\<rparr>")
       (simp_all add: hook_defs)
qed

text \<open>The amended claim in the reference scenario.\<close>

theorem one_ledger_record_with_hash_witness:
  "Called (SendUserOperation \<lparr>uo_target = ''0xPAY'', uo_data = ''0x'', uo_value = 5000000000000000\<rparr>)
     \<in> set (trace (scenario_collaborators 100 2000) (scenario_hooks 5) (scenario_props 2))
   \<and> map transactionHash
        (ledger_records (trace (scenario_collaborators 100 2000) (scenario_hooks 5) (scenario_props 2))) =
       [''0xHASH'']"
proof -
  have sent: "Called (SendUserOperation
        \<lparr>uo_target = ''0xPAY'', uo_data = ''0x'', uo_value = 5000000000000000\<rparr>)
      \<in> set (trace (scenario_collaborators 100 2000) (scenario_hooks 5) (scenario_props 2))"
    by (simp add: hook_defs scenario_defs bonus_2 sum_2_0 js_gt_def wei_5_2_2000)
  have "\<exists>r. ledger_records
          (trace (scenario_collaborators 100 2000) (scenario_hooks 5) (scenario_props 2)) = [r]
        \<and> transactionHash r = ''0xHASH'' \<and> userReferralCode r = ''REF-1''"
    by (rule one_ledger_record_with_hash [OF sent, of "''0xHASH''" "\<lparr>address = ''0xUSER''\<rparr>"
          "\<lparr>email = ''ada@example.org''\<rparr>"])
       (simp_all add: scenario_defs)
  with sent show ?thesis
    by auto
qed

text \<open>
  Claim C5, as stated, fails: when the call to the purchase tracker is rejected after a
  successful submission, control passes to the \<^verbatim>\<open>catch\<close> block; the user is not routed to the
  result screen and sees the generic failure message.
\<close>

theorem ledger_rejection_is_fatal_counterexample:
  "map uo_value (submissions (trace
      ((scenario_collaborators 100 2000)
         \<lparr>purchaseTracker := \<lambda>_. Rejected (Rejection ''unavailable'')\<rparr>)
      (scenario_hooks 5) (scenario_props 2))) = [5000000000000000]
   \<and> navigations (after initial (trace
      ((scenario_collaborators 100 2000)
         \<lparr>purchaseTracker := \<lambda>_. Rejected (Rejection ''unavailable'')\<rparr>)
      (scenario_hooks 5) (scenario_props 2))) = []
   \<and> error (after initial (trace
      ((scenario_collaborators 100 2000)
         \<lparr>purchaseTracker := \<lambda>_. Rejected (Rejection ''unavailable'')\<rparr>)
      (scenario_hooks 5) (scenario_props 2))) =
     ''Oops! Looks like an error occurred while trying to complete your purchase.''"
  by (simp add: hook_defs scenario_defs after_simps initial_def bonus_2 sum_2_0 js_gt_def
      wei_5_2_2000)

text \<open>
  Claim C5, amended. When the one ledger record of an execution is answered with a false status,
  the user is still routed to the result screen, with the bundle encoding the record's hash and
  email; the failure is shown as a message, the loading flag is cleared, the
  \<^verbatim>\<open>beforeunload\<close> listener is removed and the function returns normally.
\<close>

theorem ledger_false_status_is_warning:
  assumes "ledger_records (trace c h p) = [r]"
    and "purchaseTracker c r = Resolved False"
  shows "navigations (after initial (trace c h p)) =
           [encryptData h (transactionHash r) (purchase_email r)]
         \<and> error (after initial (trace c h p)) =
             ''Oops! Looks like an error occurred while trying to complete your purchase.''
         \<and> loading (after initial (trace c h p)) = False
         \<and> beforeunload (after initial (trace c h p)) = False
         \<and> snd (run c (transfer h p)) = Inr ()"
proof -
  have "r \<in> set (ledger_records (trace c h p))"
    using assms(1) by simp
  then have "Called (PurchaseTracker r) \<in> set (trace c h p)"
    by (rule ledger_records_member)
  from ledger_path [OF this] obtain t pid v st u d rate wei hash code where path:
    "transferSchema_safeParse p = Some t" "getPartnerId h = Some pid" "pid \<noteq> []"
    "getPartnerData c pid = Resolved (Some v)"
    "\<not> js_gt (js_add (amount t) (bonusValue (amount t))) (availableSmartNodes v)"
    "store_get h = Some st" "validateNetwork c ''arbitrum'' = Resolved True"
    "user h = Some u" "data h = Some d" "getConversionRate c = Resolved rate"
    "weiValue (js_div (js_mul (currentPrice d) (amount t)) rate) = Inr wei"
    "sendUserOperationAsync c
       \<lparr>uo_target = paymentsWallet d, uo_data = ''0x'', uo_value = wei\<rparr> = Resolved hash"
    "getUserReferralCode c (address u) (email st) = Resolved code"
    "r = \<lparr>partnerId = pid, transactionHash = hash,
          totalInEth = js_div (js_mul (currentPrice d) (amount t)) rate,
          totalInUsd = js_mul (currentPrice d) (amount t), quantity = amount t,
          purchase_bonusPlan = bonusPlan t, wallet = address u,
          purchase_email = email st, userReferralCode = code,
          transactionReferralCode = referralCode t\<rparr>"
    by blast
  from assms(2) path(14)
  have failed: "purchaseTracker c
      \<lparr>partnerId = pid, transactionHash = hash,
       totalInEth = js_div (js_mul (currentPrice d) (amount t)) rate,
       totalInUsd = js_mul (currentPrice d) (amount t), quantity = amount t,
       purchase_bonusPlan = bonusPlan t, wallet = address u,
       purchase_email = email st, userReferralCode = code,
       transactionReferralCode = referralCode t\<rparr> = Resolved False"
    by simp
  show ?thesis
    using path(1-13) failed
    by (simp add: hook_defs after_simps initial_def path(14))
qed

text \<open>The amended claim in the reference scenario with a tracker that answers false.\<close>

theorem ledger_false_status_is_warning_witness:
  "navigations (after initial (trace
      ((scenario_collaborators 100 2000)\<lparr>purchaseTracker := \<lambda>_. Resolved False\<rparr>)
      (scenario_hooks 5) (scenario_props 2))) = [''0xHASH,ada@example.org'']
   \<and> error (after initial (trace
      ((scenario_collaborators 100 2000)\<lparr>purchaseTracker := \<lambda>_. Resolved False\<rparr>)
      (scenario_hooks 5) (scenario_props 2))) =
     ''Oops! Looks like an error occurred while trying to complete your purchase.''
   \<and> loading (after initial (trace
      ((scenario_collaborators 100 2000)\<lparr>purchaseTracker := \<lambda>_. Resolved False\<rparr>)
      (scenario_hooks 5) (scenario_props 2))) = False"
proof -
  let ?c = "(scenario_collaborators 100 2000)\<lparr>purchaseTracker := \<lambda>_. Resolved False\<rparr>"
  let ?r = "\<lparr>partnerId = ''partner-1'', transactionHash = ''0xHASH'',
             totalInEth = js_div (js_mul (Fin 5) (Fin 2)) (Fin 2000),
             totalInUsd = js_mul (Fin 5) (Fin 2), quantity = Fin 2,
             purchase_bonusPlan = Fin 1, wallet = ''0xUSER'',
             purchase_email = ''ada@example.org'', userReferralCode = ''REF-1'',
             transactionReferralCode = ''friend''\<rparr>"
  have recorded: "ledger_records (trace ?c (scenario_hooks 5) (scenario_props 2)) = [?r]"
    by (simp add: hook_defs scenario_defs bonus_2 sum_2_0 js_gt_def wei_5_2_2000)
  have "purchaseTracker ?c ?r = Resolved False"
    by (simp add: scenario_defs)
  from ledger_false_status_is_warning [OF recorded this] show ?thesis
    by (simp add: scenario_defs)
qed

section \<open>The navigation warning\<close>

text \<open>
  Claim C7. The \<^verbatim>\<open>beforeunload\<close> listener is registered before the wallet call and removed
  only on the path where submission, referral and recording all go through. When the user
  rejects the signature, the attempt settles (message shown, loading flag cleared) with the
  listener still registered; in the reference scenario, where everything succeeds, it is removed.
\<close>

theorem listener_left_registered:
  "beforeunload (after initial (trace
      ((scenario_collaborators 100 2000)
         \<lparr>sendUserOperationAsync := \<lambda>_. Rejected (Rejection ''user rejected'')\<rparr>)
      (scenario_hooks 5) (scenario_props 2))) = True
   \<and> error (after initial (trace
      ((scenario_collaborators 100 2000)
         \<lparr>sendUserOperationAsync := \<lambda>_. Rejected (Rejection ''user rejected'')\<rparr>)
      (scenario_hooks 5) (scenario_props 2))) =
       ''Oops! Looks like you rejected the transaction signature.''
   \<and> loading (after initial (trace
      ((scenario_collaborators 100 2000)
         \<lparr>sendUserOperationAsync := \<lambda>_. Rejected (Rejection ''user rejected'')\<rparr>)
      (scenario_hooks 5) (scenario_props 2))) = False
   \<and> beforeunload (after initial
        (trace (scenario_collaborators 100 2000) (scenario_hooks 5) (scenario_props 2))) = False"
  by (simp add: hook_defs scenario_defs after_def initial_def bonus_2 sum_2_0 js_gt_def
      wei_5_2_2000)

text \<open>
  The same holds of every execution: whenever the wallet call is made and rejected, the attempt
  ends with the listener registered, the loading flag cleared and no navigation.
\<close>

lemma rejected_submission_keeps_listener:
  assumes "Called (SendUserOperation uo) \<in> set (trace c h p)"
    and "sendUserOperationAsync c uo = Rejected e"
  shows "beforeunload (after initial (trace c h p)) = True
         \<and> loading (after initial (trace c h p)) = False
         \<and> navigations (after initial (trace c h p)) = []"
proof -
  from submission_path [OF assms(1)] obtain t pid v st u d rate where path:
    "transferSchema_safeParse p = Some t" "getPartnerId h = Some pid" "pid \<noteq> []"
    "getPartnerData c pid = Resolved (Some v)"
    "\<not> js_gt (js_add (amount t) (bonusValue (amount t))) (availableSmartNodes v)"
    "store_get h = Some st" "validateNetwork c ''arbitrum'' = Resolved True"
    "user h = Some u" "data h = Some d" "getConversionRate c = Resolved rate"
    "weiValue (js_div (js_mul (currentPrice d) (amount t)) rate) = Inr (uo_value uo)"
    "uo = \<lparr>uo_target = paymentsWallet d, uo_data = ''0x'', uo_value = uo_value uo\<rparr>"
    by blast
  have rejected: "sendUserOperationAsync c
      \<lparr>uo_target = paymentsWallet d, uo_data = ''0x'', uo_value = uo_value uo\<rparr> = Rejected e"
    using assms(2) path(12) by simp
  show ?thesis
    using path(1-11) rejected
    by (simp add: hook_defs after_simps initial_def run_perform split: prod.splits)
qed

section \<open>Re-entrant calls\<close>

text \<open>
  Claim C9, as stated, fails: \<^verbatim>\<open>transfer\<close> never reads \<^verbatim>\<open>loading\<close>. After the first turn
  of a call the flag is set; a second call made then starts an attempt of its own, and both
  attempts reach the wallet.
\<close>

theorem second_call_starts_attempt_counterexample:
  "loading (after initial (first_turn (transfer (scenario_hooks 5) (scenario_props 2)))) = True
   \<and> map uo_value (submissions (second_call_during_first (scenario_collaborators 100 2000)
        (scenario_hooks 5) (scenario_props 2) (scenario_props 2))) =
       [5000000000000000, 5000000000000000]"
  by (simp add: second_call_during_first_def hook_defs scenario_defs after_simps initial_def
      bonus_2 sum_2_0 js_gt_def wei_5_2_2000)

text \<open>
  Claim C9, amended. The hook has no re-entrancy guard: every call of \<^verbatim>\<open>transfer\<close> starts an
  attempt by setting the loading flag and clearing the error, and what the attempt does and the
  state it ends in are the same whether the flag was set or not when it was called. Keeping to
  one attempt at a time is left to the caller.
\<close>

theorem transfer_ignores_loading:
  "take 3 (trace c h p) = [Did PreventDefault, Did (SetLoading True), Did (SetError [])]
   \<and> after (s\<lparr>loading := b\<rparr>) (trace c h p) = after s (trace c h p)"
  by (simp add: trace_def transfer_def run_perform after_simps split: prod.splits)

section \<open>The test flag\<close>

text \<open>
  Claim C10, as stated, fails: the code tests the value of the query parameter, not its
  presence. With \<^verbatim>\<open>testSuccessModalOption\<close> present and empty, no timer is set.
\<close>

theorem test_flag_empty_value_counterexample:
  "timers (after initial (trace (scenario_collaborators 100 2000)
      ((scenario_hooks 5)
         \<lparr>searchParams_get := \<lambda>k. if k = ''testSuccessModalOption'' then Some [] else None\<rparr>)
      (scenario_props 2))) = []"
  by (simp add: hook_defs scenario_defs after_def initial_def bonus_2 sum_2_0 js_gt_def
      wei_5_2_2000)

text \<open>
  Claim C10, amended. For every execution that passes the schema, the capacity check and the
  stored-identity check, if the query parameter \<^verbatim>\<open>testSuccessModalOption\<close> has a non-empty
  value, exactly one timer is set, for 3000 ms, whose callback navigates to the result screen
  with the bundle encoding the hash \<^verbatim>\<open>0x123456789abcdef\<close> and the stored email and then clears
  the loading flag; this holds whatever the collaborators answer afterwards.
\<close>

theorem test_flag_schedules_fake_result:
  assumes "transferSchema_safeParse p = Some t"
    and "getPartnerId h = Some pid" and "pid \<noteq> []"
    and "getPartnerData c pid = Resolved (Some v)"
    and "\<not> js_gt (js_add (amount t) (bonusValue (amount t))) (availableSmartNodes v)"
    and "store_get h = Some st"
    and "searchParams_get h ''testSuccessModalOption'' = Some flag" and "flag \<noteq> []"
  shows "timers (after initial (trace c h p)) =
           [([Navigate (encryptData h ''0x123456789abcdef'' (email st)), SetLoading False], 3000)]"
proof -
  let ?body = "try_finally (try_catch (try_block h t (email st)) (catch_block h))
                 (Do (SetLoading False) (Return ()))"
  have tr: "trace c h p =
      [Did PreventDefault, Did (SetLoading True), Did (SetError []), Called (GetPartnerData pid),
       Did (SetTimeout [Navigate (encryptData h ''0x123456789abcdef'' (email st)), SetLoading False]
              3000)] @ fst (run c ?body)"
    using assms
    by (simp add: trace_def transfer_def validateAmount_def Let_def split: prod.splits)
  have rest: "timers (after s (fst (run c ?body))) = timers s" for s
  proof (cases "run c (try_block h t (email st))")
    case (Pair es r)
    have tried: "timers (after s es) = timers s"
      using timers_try_block [of s c h t "email st"] Pair by simp
    show ?thesis
    proof (cases r)
      case (Inl e)
      obtain es' r' where caught: "run c (catch_block h e) = (es', r')"
        by (cases "run c (catch_block h e)")
      have "timers (after (after s es) es') = timers (after s es)"
        using timers_catch_block [of "after s es" c h e] caught by simp
      with Pair Inl caught tried show ?thesis
        by (simp add: run_try_finally run_try_catch after_simps)
    next
      case (Inr u)
      with Pair tried show ?thesis
        by (simp add: run_try_finally run_try_catch after_simps)
    qed
  qed
  show ?thesis
    by (simp only: tr after_append rest) (simp add: after_simps initial_def)
qed

text \<open>The amended claim with a wallet that rejects the submission.\<close>

theorem test_flag_schedules_fake_result_witness:
  "timers (after initial (trace
      ((scenario_collaborators 100 2000)
         \<lparr>sendUserOperationAsync := \<lambda>_. Rejected (Rejection ''user rejected'')\<rparr>)
      ((scenario_hooks 5)
         \<lparr>searchParams_get := \<lambda>k. if k = ''testSuccessModalOption'' then Some ''1'' else None\<rparr>)
      (scenario_props 2))) =
     [([Navigate ''0x123456789abcdef,ada@example.org'', SetLoading False], 3000)]"
proof -
  have parsed: "transferSchema_safeParse (scenario_props 2) =
      Some \<lparr>referralCode = ''friend'', amount = Fin 2, bonusPlan = Fin 1\<rparr>"
    by (simp add: scenario_defs)
  have fits: "\<not> js_gt (js_add (Fin 2) (bonusValue (Fin 2))) (Fin 100)"
    by (simp add: bonus_2 sum_2_0 js_gt_def)
  show ?thesis
    using fits test_flag_schedules_fake_result [OF parsed, of
        "(scenario_hooks 5)
           \<lparr>searchParams_get := \<lambda>k. if k = ''testSuccessModalOption'' then Some ''1'' else None\<rparr>"
        "''partner-1''"
        "(scenario_collaborators 100 2000)
           \<lparr>sendUserOperationAsync := \<lambda>_. Rejected (Rejection ''user rejected'')\<rparr>"
        "\<lparr>availableSmartNodes = Fin 100\<rparr>" "\<lparr>email = ''ada@example.org''\<rparr>" "''1''"]
    by (simp add: scenario_defs)
qed

end
